theory Spec2Isabelle
  imports Main
begin

section \<open>JavaScript values seen by the diff predicates\<close>

text \<open>
  The text predicates are written with \<^verbatim>\<open>&&\<close> and \<^verbatim>\<open>!==\<close> on values that are
  strings or \<^verbatim>\<open>undefined\<close>; \<^verbatim>\<open>a && b\<close> yields \<^verbatim>\<open>a\<close> itself when \<^verbatim>\<open>a\<close> is falsy and
  \<^verbatim>\<open>b\<close> otherwise, so a predicate may return a string, \<^verbatim>\<open>undefined\<close> or a boolean.
  The caller only tests the result with \<^verbatim>\<open>if\<close>, that is, for truthiness.
\<close>

datatype jsval = JUndefined | JBool bool | JString string

fun truthy :: "jsval \<Rightarrow> bool" where
  "truthy JUndefined = False"
| "truthy (JBool b) = b"
| "truthy (JString s) = (s \<noteq> [])"

definition js_and :: "jsval \<Rightarrow> jsval \<Rightarrow> jsval" where
  "js_and a b = (if truthy a then b else a)"

definition strict_neq :: "jsval \<Rightarrow> jsval \<Rightarrow> jsval" where
  "strict_neq a b = JBool (a \<noteq> b)"

text \<open>A field of type string that may still be \<^verbatim>\<open>undefined\<close>, as a JavaScript value.\<close>

fun text_val :: "string option \<Rightarrow> jsval" where
  "text_val None = JUndefined"
| "text_val (Some s) = JString s"

subsection \<open>The text predicates\<close>

text \<open>
  \<^verbatim>\<open>src/index.js\<close>, lines 8-10:
  \<^verbatim>\<open>return beforeText && afterText && beforeText !== afterText;\<close>
\<close>

definition isDiffText_index :: "jsval \<Rightarrow> jsval \<Rightarrow> jsval" where
  "isDiffText_index beforeText afterText =
     js_and (js_and beforeText afterText) (strict_neq beforeText afterText)"

text \<open>
  The class (\<^verbatim>\<open>src/unnamed/part_000\<close>, lines 152-154):
  \<^verbatim>\<open>return afterText && beforeText !== afterText;\<close>
\<close>

definition isDiffText_class :: "jsval \<Rightarrow> jsval \<Rightarrow> jsval" where
  "isDiffText_class beforeText afterText =
     js_and afterText (strict_neq beforeText afterText)"

subsection \<open>Images and the image predicate\<close>

text \<open>
  Electron's \<^verbatim>\<open>NativeImage\<close> is opaque to the observer: it calls \<^verbatim>\<open>isEmpty()\<close> and
  \<^verbatim>\<open>toDataURL()\<close> and nothing else. An image value is the pair of what the two
  methods return.
\<close>

record NativeImage =
  isEmpty :: bool
  toDataURL :: string

datatype exn = TypeError | UserError

text \<open>
  Both files have the same body:
  \<^verbatim>\<open>return afterImage && !afterImage.isEmpty() && beforeImage.toDataURL() !== afterImage.toDataURL();\<close>
  The operands are evaluated left to right and only as far as needed, so
  \<^verbatim>\<open>beforeImage.toDataURL()\<close> is reached only for a present, non-empty \<^verbatim>\<open>afterImage\<close>;
  there a \<^verbatim>\<open>beforeImage\<close> that is \<^verbatim>\<open>undefined\<close> raises a TypeError.
\<close>

definition isDiffImage_index :: "NativeImage option \<Rightarrow> NativeImage option \<Rightarrow> exn + jsval" where
  "isDiffImage_index beforeImage afterImage =
     (case afterImage of
        None \<Rightarrow> Inr JUndefined
      | Some a \<Rightarrow>
          if isEmpty a then Inr (JBool False)
          else (case beforeImage of
                  None \<Rightarrow> Inl TypeError
                | Some b \<Rightarrow> Inr (JBool (toDataURL b \<noteq> toDataURL a))))"

definition isDiffImage_class :: "NativeImage option \<Rightarrow> NativeImage option \<Rightarrow> exn + jsval" where
  "isDiffImage_class beforeImage afterImage =
     (case afterImage of
        None \<Rightarrow> Inr JUndefined
      | Some a \<Rightarrow>
          if isEmpty a then Inr (JBool False)
          else (case beforeImage of
                  None \<Rightarrow> Inl TypeError
                | Some b \<Rightarrow> Inr (JBool (toDataURL b \<noteq> toDataURL a))))"

section \<open>The observer and the host\<close>

text \<open>
  A user callback is called with the new and the previous value. What matters to the
  observer is whether the call returns or throws; the callback is taken not to touch
  the observer or the clipboard itself.
\<close>

datatype completion = Returns | Throws

type_synonym 'a listener = "'a \<Rightarrow> 'a option \<Rightarrow> completion"

text \<open>A callback field is tested for truthiness: a function is truthy, \<^verbatim>\<open>undefined\<close> is not.\<close>

fun configured :: "'a option \<Rightarrow> bool" where
  "configured None = False"
| "configured (Some f) = True"

text \<open>What the observer does to the outside: clipboard reads and callback calls, in order.\<close>

datatype effect =
    ReadText
  | ReadImage
  | TextChange string "string option"
  | ImageChange NativeImage "NativeImage option"

text \<open>The constructor's argument: each key may be absent.\<close>

record Options =
  opt_duration :: "int option"
  opt_textChange :: "string listener option"
  opt_imageChange :: "NativeImage listener option"

text \<open>
  One observer and the part of the host it touches. The first six fields are the
  instance fields of the class, and equally the variables \<^verbatim>\<open>duration\<close>, \<^verbatim>\<open>textChange\<close>,
  \<^verbatim>\<open>imageChange\<close>, \<^verbatim>\<open>timer\<close>, \<^verbatim>\<open>beforeText\<close>, \<^verbatim>\<open>beforeImage\<close> of the closure in
  \<^verbatim>\<open>src/index.js\<close>; \<open>None\<close> is \<^verbatim>\<open>undefined\<close>. The rest is the host: the clipboard's
  content, the repeating timers that are scheduled (handle and the delay argument
  as it was passed), the next fresh handle, and the trace of effects.
\<close>

record world =
  timer :: "nat option"
  beforeText :: "string option"
  beforeImage :: "NativeImage option"
  duration :: "int option"
  textChange :: "string listener option"
  imageChange :: "NativeImage listener option"
  clipText :: string
  clipImage :: NativeImage
  intervals :: "(nat \<times> int option) list"
  nextHandle :: nat
  trace :: "effect list"

subsection \<open>Host operations\<close>

text \<open>A clipboard read returns the current content; a read that fails is not modelled.\<close>

definition readText :: "world \<Rightarrow> string \<times> world" where
  "readText w = (clipText w, w\<lparr>trace := trace w @ [ReadText]\<rparr>)"

definition readImage :: "world \<Rightarrow> NativeImage \<times> world" where
  "readImage w = (clipImage w, w\<lparr>trace := trace w @ [ReadImage]\<rparr>)"

definition setInterval :: "int option \<Rightarrow> world \<Rightarrow> nat \<times> world" where
  "setInterval delay w =
     (nextHandle w,
      w\<lparr>intervals := intervals w @ [(nextHandle w, delay)], nextHandle := Suc (nextHandle w)\<rparr>)"

text \<open>\<^verbatim>\<open>clearInterval(undefined)\<close> does nothing.\<close>

definition clearInterval :: "nat option \<Rightarrow> world \<Rightarrow> world" where
  "clearInterval h w =
     (case h of
        None \<Rightarrow> w
      | Some i \<Rightarrow> w\<lparr>intervals := filter (\<lambda>e. fst e \<noteq> i) (intervals w)\<rparr>)"

subsection \<open>The function of \<^verbatim>\<open>src/index.js\<close>\<close>

definition DEFAULT_OPTIONS :: Options where
  "DEFAULT_OPTIONS = \<lparr>opt_duration = Some 500, opt_textChange = None, opt_imageChange = None\<rparr>"

text \<open>
  \<^verbatim>\<open>Object.assign({}, a, b)\<close>: the keys of \<open>b\<close> win over those of \<open>a\<close>. In \<open>Options\<close>
  the value \<open>None\<close> is an absent key; a key that is present with the value
  \<^verbatim>\<open>undefined\<close>, which \<^verbatim>\<open>Object.assign\<close> would copy over the default, is not
  represented.
\<close>

definition assign :: "Options \<Rightarrow> Options \<Rightarrow> Options" where
  "assign a b =
     \<lparr>opt_duration = (case opt_duration b of None \<Rightarrow> opt_duration a | Some d \<Rightarrow> Some d),
      opt_textChange = (case opt_textChange b of None \<Rightarrow> opt_textChange a | Some f \<Rightarrow> Some f),
      opt_imageChange = (case opt_imageChange b of None \<Rightarrow> opt_imageChange a | Some f \<Rightarrow> Some f)\<rparr>"

text \<open>
  The body of the arrow function given to \<^verbatim>\<open>setInterval\<close> (lines 47-63), text channel
  first. The result says whether the body ran to its end or an exception left it, and
  gives the state at that point.
\<close>

definition tickText_index :: "world \<Rightarrow> exn option \<times> world" where
  "tickText_index w =
     (case textChange w of
        None \<Rightarrow> (None, w)
      | Some f \<Rightarrow>
          (case readText w of
             (text, w1) \<Rightarrow>
               if truthy (isDiffText_index (text_val (beforeText w1)) (JString text)) then
                 (let w2 = w1\<lparr>trace := trace w1 @ [TextChange text (beforeText w1)]\<rparr> in
                  case f text (beforeText w1) of
                    Throws \<Rightarrow> (Some UserError, w2)
                  | Returns \<Rightarrow> (None, w2\<lparr>beforeText := Some text\<rparr>))
               else (None, w1)))"

definition tickImage_index :: "world \<Rightarrow> exn option \<times> world" where
  "tickImage_index w =
     (case imageChange w of
        None \<Rightarrow> (None, w)
      | Some g \<Rightarrow>
          (case readImage w of
             (img, w1) \<Rightarrow>
               (case isDiffImage_index (beforeImage w1) (Some img) of
                  Inl e \<Rightarrow> (Some e, w1)
                | Inr d \<Rightarrow>
                    if truthy d then
                      (let w2 = w1\<lparr>trace := trace w1 @ [ImageChange img (beforeImage w1)]\<rparr> in
                       case g img (beforeImage w1) of
                         Throws \<Rightarrow> (Some UserError, w2)
                       | Returns \<Rightarrow> (None, w2\<lparr>beforeImage := Some img\<rparr>))
                    else (None, w1))))"

definition tick_index :: "world \<Rightarrow> exn option \<times> world" where
  "tick_index w =
     (case tickText_index w of
        (Some e, w1) \<Rightarrow> (Some e, w1)
      | (None, w1) \<Rightarrow> tickImage_index w1)"

text \<open>
  \<^verbatim>\<open>clipboardObserver(option)\<close>, lines 29-64: the closure's variables are set up, and
  with a callback present the last-known values are read and the timer is scheduled.
\<close>

definition clipboardObserver :: "Options \<Rightarrow> world \<Rightarrow> world" where
  "clipboardObserver option w =
     (let options = assign DEFAULT_OPTIONS option;
          w0 = w\<lparr>timer := None, beforeText := None, beforeImage := None,
                 duration := opt_duration options,
                 textChange := opt_textChange options,
                 imageChange := opt_imageChange options\<rparr>
      in
        if configured (textChange w0) \<or> configured (imageChange w0) then
          (let w1 = (if configured (textChange w0)
                     then (case readText w0 of (t, w') \<Rightarrow> w'\<lparr>beforeText := Some t\<rparr>)
                     else w0);
               w2 = (if configured (imageChange w1)
                     then (case readImage w1 of (i, w') \<Rightarrow> w'\<lparr>beforeImage := Some i\<rparr>)
                     else w1)
           in case setInterval (duration w2) w2 of (h, w3) \<Rightarrow> w3\<lparr>timer := Some h\<rparr>)
        else w0)"

text \<open>The method \<^verbatim>\<open>destroy()\<close> of the returned object (lines 67-69).\<close>

definition destroy :: "world \<Rightarrow> world" where
  "destroy w = clearInterval (timer w) w"

subsection \<open>The class \<^verbatim>\<open>ClipboardObserver\<close> of \<^verbatim>\<open>src/unnamed/part_000\<close>\<close>

text \<open>\<^verbatim>\<open>clearTimer()\<close>, lines 90-92.\<close>

definition clearTimer :: "world \<Rightarrow> world" where
  "clearTimer w = clearInterval (timer w) w"

text \<open>\<^verbatim>\<open>setClipboardDefaultValue()\<close>, lines 97-106.\<close>

definition setClipboardDefaultValue :: "world \<Rightarrow> world" where
  "setClipboardDefaultValue w =
     (let w1 = (if configured (textChange w)
                then (case readText w of (t, w') \<Rightarrow> w'\<lparr>beforeText := Some t\<rparr>)
                else w)
      in if configured (imageChange w1)
         then (case readImage w1 of (i, w') \<Rightarrow> w'\<lparr>beforeImage := Some i\<rparr>)
         else w1)"

text \<open>The body of the arrow function in \<^verbatim>\<open>setTimer()\<close>, lines 121-143.\<close>

definition tickText_class :: "world \<Rightarrow> exn option \<times> world" where
  "tickText_class w =
     (case textChange w of
        None \<Rightarrow> (None, w)
      | Some f \<Rightarrow>
          (case readText w of
             (text, w1) \<Rightarrow>
               if truthy (isDiffText_class (text_val (beforeText w1)) (JString text)) then
                 (let w2 = w1\<lparr>trace := trace w1 @ [TextChange text (beforeText w1)]\<rparr> in
                  case f text (beforeText w1) of
                    Throws \<Rightarrow> (Some UserError, w2)
                  | Returns \<Rightarrow> (None, w2\<lparr>beforeText := Some text\<rparr>))
               else (None, w1)))"

definition tickImage_class :: "world \<Rightarrow> exn option \<times> world" where
  "tickImage_class w =
     (case imageChange w of
        None \<Rightarrow> (None, w)
      | Some g \<Rightarrow>
          (case readImage w of
             (img, w1) \<Rightarrow>
               (case isDiffImage_class (beforeImage w1) (Some img) of
                  Inl e \<Rightarrow> (Some e, w1)
                | Inr d \<Rightarrow>
                    if truthy d then
                      (let w2 = w1\<lparr>trace := trace w1 @ [ImageChange img (beforeImage w1)]\<rparr> in
                       case g img (beforeImage w1) of
                         Throws \<Rightarrow> (Some UserError, w2)
                       | Returns \<Rightarrow> (None, w2\<lparr>beforeImage := Some img\<rparr>))
                    else (None, w1))))"

definition tick_class :: "world \<Rightarrow> exn option \<times> world" where
  "tick_class w =
     (case tickText_class w of
        (Some e, w1) \<Rightarrow> (Some e, w1)
      | (None, w1) \<Rightarrow> tickImage_class w1)"

text \<open>\<^verbatim>\<open>setTimer()\<close>, lines 119-144: schedules the body above and keeps the handle.\<close>

definition setTimer :: "world \<Rightarrow> world" where
  "setTimer w = (case setInterval (duration w) w of (h, w') \<Rightarrow> w'\<lparr>timer := Some h\<rparr>)"

text \<open>\<^verbatim>\<open>start()\<close>, lines 64-69.\<close>

definition start :: "world \<Rightarrow> world" where
  "start w = setTimer (setClipboardDefaultValue w)"

text \<open>\<^verbatim>\<open>stop()\<close>, lines 74-77: the body is the call \<^verbatim>\<open>this.setTimer()\<close>.\<close>

definition stop :: "world \<Rightarrow> world" where
  "stop w = setTimer w"

text \<open>
  \<^verbatim>\<open>new ClipboardObserver(options)\<close>: the field initialiser \<^verbatim>\<open>duration = 500\<close> runs
  first (the other fields start \<^verbatim>\<open>undefined\<close>), then the constructor's body,
  lines 47-59, which assigns the three destructured options to the fields.
\<close>

definition constructor :: "Options \<Rightarrow> world \<Rightarrow> world" where
  "constructor options w =
     (let w0 = w\<lparr>timer := None, beforeText := None, beforeImage := None,
                 duration := Some 500, textChange := None, imageChange := None\<rparr>;
          w1 = w0\<lparr>duration := opt_duration options,
                  textChange := opt_textChange options,
                  imageChange := opt_imageChange options\<rparr>
      in if configured (textChange w1) \<or> configured (imageChange w1) then start w1 else w1)"

section \<open>Runs\<close>

text \<open>
  What happens to an observer after its construction: one of the scheduled timers
  fires, another program writes to the clipboard, or the owner calls a method. A timer
  fires only while its handle is scheduled. An exception that leaves the timer's body
  goes to the host, which keeps the timer scheduled.
\<close>

datatype stimulus_index =
    IFire nat
  | IWriteText string
  | IWriteImage NativeImage
  | IDestroy

fun step_index :: "world \<Rightarrow> stimulus_index \<Rightarrow> world" where
  "step_index w (IFire h) = (if h \<in> fst ` set (intervals w) then snd (tick_index w) else w)"
| "step_index w (IWriteText s) = w\<lparr>clipText := s\<rparr>"
| "step_index w (IWriteImage i) = w\<lparr>clipImage := i\<rparr>"
| "step_index w IDestroy = destroy w"

definition run_index :: "world \<Rightarrow> stimulus_index list \<Rightarrow> world" where
  "run_index w xs = foldl step_index w xs"

datatype stimulus_class =
    CFire nat
  | CWriteText string
  | CWriteImage NativeImage
  | CStart
  | CStop

fun step_class :: "world \<Rightarrow> stimulus_class \<Rightarrow> world" where
  "step_class w (CFire h) = (if h \<in> fst ` set (intervals w) then snd (tick_class w) else w)"
| "step_class w (CWriteText s) = w\<lparr>clipText := s\<rparr>"
| "step_class w (CWriteImage i) = w\<lparr>clipImage := i\<rparr>"
| "step_class w CStart = start w"
| "step_class w CStop = stop w"

definition run_class :: "world \<Rightarrow> stimulus_class list \<Rightarrow> world" where
  "run_class w xs = foldl step_class w xs"

text \<open>A host at program start: the given clipboard content, no timer, nothing done yet.\<close>

definition boot :: "string \<Rightarrow> NativeImage \<Rightarrow> world" where
  "boot t i =
     \<lparr>timer = None, beforeText = None, beforeImage = None, duration = None,
      textChange = None, imageChange = None,
      clipText = t, clipImage = i, intervals = [], nextHandle = 0, trace = []\<rparr>"

text \<open>
  Test doubles: a callback that returns, a callback that throws, an empty image and an
  image that is not empty.
\<close>

definition returning :: "'a listener" where
  "returning new old = Returns"

definition throwing :: "'a listener" where
  "throwing new old = Throws"

definition emptyImage :: NativeImage where
  "emptyImage = \<lparr>isEmpty = True, toDataURL = ''data:image/png;base64,''\<rparr>"

definition pngImage :: NativeImage where
  "pngImage = \<lparr>isEmpty = False, toDataURL = ''data:image/png;base64,iVBORw0KGgo=''\<rparr>"

section \<open>Unfolding sets\<close>

lemmas host_defs = readText_def readImage_def setInterval_def clearInterval_def

lemmas index_defs = clipboardObserver_def assign_def DEFAULT_OPTIONS_def destroy_def
  tick_index_def tickText_index_def tickImage_index_def

lemmas class_defs = constructor_def start_def stop_def setTimer_def clearTimer_def
  setClipboardDefaultValue_def tick_class_def tickText_class_def tickImage_class_def

section \<open>The text predicate\<close>

lemma truthy_isDiffText_class:
  "truthy (isDiffText_class b (JString c)) = (c \<noteq> [] \<and> JString c \<noteq> b)"
  by (auto simp: isDiffText_class_def js_and_def strict_neq_def)

lemma truthy_isDiffText_index:
  "truthy (isDiffText_index b (JString c)) = (truthy b \<and> c \<noteq> [] \<and> JString c \<noteq> b)"
  by (auto simp: isDiffText_index_def js_and_def strict_neq_def)

text \<open>
  The class's predicate reports a change exactly for a non-empty current text that is
  not the previous one, also when the previous text is empty or \<^verbatim>\<open>undefined\<close>.
\<close>

lemma isDiffText_class_iff:
  "truthy (isDiffText_class (text_val p) (JString c)) = (c \<noteq> [] \<and> Some c \<noteq> p)"
  by (cases p) (auto simp: truthy_isDiffText_class)

text \<open>The predicate of \<^verbatim>\<open>src/index.js\<close> asks for a non-empty previous text as well.\<close>

lemma isDiffText_index_iff:
  "truthy (isDiffText_index (text_val p) (JString c)) =
     (c \<noteq> [] \<and> Some c \<noteq> p \<and> p \<noteq> None \<and> p \<noteq> Some [])"
  by (cases p) (auto simp: truthy_isDiffText_index)

text \<open>
  C1. The text predicate is to report a change if and only if the current text is
  non-empty and differs from the previous text, in particular for an empty previous
  text. In \<^verbatim>\<open>src/index.js\<close> it does not: with previous text \<^verbatim>\<open>""\<close> and current text
  \<^verbatim>\<open>"A"\<close> the result is falsy. An observer created while the clipboard holds no text
  therefore stays silent when \<^verbatim>\<open>"A"\<close> is copied: the tick reads the text and calls
  nothing.
\<close>

theorem isDiffText_index_empty_previous:
  "\<not> truthy (isDiffText_index (JString []) (JString ''A'')) \<and>
   trace (run_index (clipboardObserver
       \<lparr>opt_duration = None, opt_textChange = Some returning, opt_imageChange = None\<rparr>
       (boot [] emptyImage)) [IWriteText ''A'', IFire 0]) = [ReadText, ReadText]"
  by (simp add: isDiffText_index_def js_and_def strict_neq_def run_index_def boot_def
      host_defs index_defs Let_def)

text \<open>The two predicates return the same value whenever the previous text is truthy.\<close>

lemma isDiffText_agree_nonempty_previous:
  "truthy b \<Longrightarrow> isDiffText_index b a = isDiffText_class b a"
  by (simp add: isDiffText_index_def isDiffText_class_def js_and_def)

theorem isDiffText_agree_witness:
  "truthy (JString ''A'') \<and>
   isDiffText_index (JString ''A'') (JString ''B'') = isDiffText_class (JString ''A'') (JString ''B'') \<and>
   isDiffText_class (JString ''A'') (JString ''B'') = JBool True"
  using isDiffText_agree_nonempty_previous [of "JString ''A''" "JString ''B''"]
  by (simp add: isDiffText_class_def js_and_def strict_neq_def)

text \<open>
  C9. The predicates of the two variants are to return the same result for every pair
  of strings. At previous text \<^verbatim>\<open>""\<close> and current text \<^verbatim>\<open>"A"\<close> they do not:
  \<^verbatim>\<open>src/index.js\<close> returns the empty string (falsy), the class returns \<^verbatim>\<open>true\<close>.
\<close>

theorem isDiffText_variants_disagree:
  "isDiffText_index (JString []) (JString ''A'') = JString [] \<and>
   isDiffText_class (JString []) (JString ''A'') = JBool True"
  by (simp add: isDiffText_index_def isDiffText_class_def js_and_def strict_neq_def)

section \<open>The image predicate\<close>

text \<open>
  With no previous image at all (\<^verbatim>\<open>undefined\<close>) the call \<^verbatim>\<open>beforeImage.toDataURL()\<close>
  raises for a current image that is not empty.
\<close>

lemma isDiffImage_absent_previous:
  "isDiffImage_index None (Some c) = (if isEmpty c then Inr (JBool False) else Inl TypeError)"
  "isDiffImage_class None (Some c) = (if isEmpty c then Inr (JBool False) else Inl TypeError)"
  by (simp_all add: isDiffImage_index_def isDiffImage_class_def)

text \<open>
  C4 as stated: for every pair of a previous and a current image the predicate reports
  a change if and only if the current image is present, not empty and of another data
  URL than the previous one. The last-known image is \<^verbatim>\<open>undefined\<close> until it is first
  set; with such a previous image and a current image that is not empty the predicate
  reports nothing, it raises a TypeError. A tick of the class gets there when
  \<^verbatim>\<open>imageChange\<close> is assigned on an observer that was constructed with a text callback
  only.
\<close>

theorem isDiffImage_absent_previous_raises:
  "\<not> isEmpty pngImage \<and>
   isDiffImage_index None (Some pngImage) = Inl TypeError \<and>
   isDiffImage_class None (Some pngImage) = Inl TypeError \<and>
   fst (tick_class ((constructor
       \<lparr>opt_duration = Some 100, opt_textChange = Some returning, opt_imageChange = None\<rparr>
       (boot ''A'' pngImage))\<lparr>imageChange := Some returning\<rparr>)) = Some TypeError"
  by (simp add: pngImage_def isDiffImage_index_def isDiffImage_class_def boot_def host_defs
      class_defs Let_def isDiffText_class_def js_and_def strict_neq_def)

text \<open>
  C4, amended. For every previous image that is present and every current image or
  \<^verbatim>\<open>undefined\<close>, the image predicate of either variant returns a value, and that value
  is truthy if and only if the current image is present, is not empty by its own
  \<^verbatim>\<open>isEmpty()\<close>, and its data URL differs from the previous image's data URL. When the
  previous image is \<^verbatim>\<open>undefined\<close>, the predicate returns a falsy value for a current
  image that is absent or empty, and raises a TypeError for a current image that is
  present and not empty.
\<close>

theorem isDiffImage_every_pair:
  "(\<exists>v. isDiffImage_index (Some b) a = Inr v \<and>
        truthy v = (case a of None \<Rightarrow> False
                    | Some c \<Rightarrow> \<not> isEmpty c \<and> toDataURL b \<noteq> toDataURL c)) \<and>
   (\<exists>v. isDiffImage_class (Some b) a = Inr v \<and>
        truthy v = (case a of None \<Rightarrow> False
                    | Some c \<Rightarrow> \<not> isEmpty c \<and> toDataURL b \<noteq> toDataURL c)) \<and>
   (case isDiffImage_index None a of
      Inl e \<Rightarrow> e = TypeError \<and> (case a of None \<Rightarrow> False | Some c \<Rightarrow> \<not> isEmpty c)
    | Inr v \<Rightarrow> \<not> truthy v \<and> (case a of None \<Rightarrow> True | Some c \<Rightarrow> isEmpty c)) \<and>
   (case isDiffImage_class None a of
      Inl e \<Rightarrow> e = TypeError \<and> (case a of None \<Rightarrow> False | Some c \<Rightarrow> \<not> isEmpty c)
    | Inr v \<Rightarrow> \<not> truthy v \<and> (case a of None \<Rightarrow> True | Some c \<Rightarrow> isEmpty c))"
  by (simp add: isDiffImage_index_def isDiffImage_class_def split: option.split)

section \<open>Timers\<close>

lemma setTimer_intervals:
  "intervals (setTimer w) = intervals w @ [(nextHandle w, duration w)]"
  by (simp add: setTimer_def setInterval_def)

lemma setTimer_timer: "timer (setTimer w) = Some (nextHandle w)"
  by (simp add: setTimer_def setInterval_def)

lemma setTimer_duration: "duration (setTimer w) = duration w"
  by (simp add: setTimer_def setInterval_def)

lemma seed_intervals:
  "intervals (setClipboardDefaultValue w) = intervals w"
  "nextHandle (setClipboardDefaultValue w) = nextHandle w"
  "duration (setClipboardDefaultValue w) = duration w"
  by (simp_all add: setClipboardDefaultValue_def readText_def readImage_def Let_def)

text \<open>\<^verbatim>\<open>stop()\<close> and \<^verbatim>\<open>start()\<close> each schedule one more timer and cancel none.\<close>

lemma stop_intervals:
  "intervals (stop w) = intervals w @ [(nextHandle w, duration w)]"
  by (simp add: stop_def setTimer_intervals)

lemma start_intervals:
  "intervals (start w) = intervals w @ [(nextHandle w, duration w)]"
  by (simp add: start_def setTimer_intervals seed_intervals)

lemma start_timer: "timer (start w) = Some (nextHandle w)"
  by (simp add: start_def setTimer_timer seed_intervals)

text \<open>
  C2. \<^verbatim>\<open>stop()\<close> is to cancel the active timer and create none, and to do nothing when
  no timer is active. The class's \<^verbatim>\<open>stop()\<close> calls \<^verbatim>\<open>setTimer()\<close>: on an observer
  constructed with a text callback and a duration of 100, whose timer 0 is active, it
  leaves timer 0 scheduled and schedules timer 1; on an observer constructed without
  callbacks, which has no timer, it schedules one.
\<close>

theorem stop_schedules_second_timer:
  "intervals (constructor
       \<lparr>opt_duration = Some 100, opt_textChange = Some returning, opt_imageChange = None\<rparr>
       (boot ''A'' emptyImage)) = [(0, Some 100)] \<and>
   intervals (stop (constructor
       \<lparr>opt_duration = Some 100, opt_textChange = Some returning, opt_imageChange = None\<rparr>
       (boot ''A'' emptyImage))) = [(0, Some 100), (1, Some 100)] \<and>
   intervals (stop (constructor
       \<lparr>opt_duration = Some 100, opt_textChange = None, opt_imageChange = None\<rparr>
       (boot ''A'' emptyImage))) = [(0, Some 100)]"
  by (simp add: boot_def host_defs class_defs Let_def)

text \<open>
  \<^verbatim>\<open>destroy()\<close> of \<^verbatim>\<open>src/index.js\<close>, in contrast, cancels the timer that the observer
  scheduled: on a host whose handles are all below the next fresh one, the timers are
  afterwards those from before the observer, and firing the cancelled handle does
  nothing.
\<close>

theorem destroy_cancels_timer:
  assumes "\<forall>e \<in> set (intervals w). fst e < nextHandle w"
    and "configured (opt_textChange option) \<or> configured (opt_imageChange option)"
  shows "timer (clipboardObserver option w) = Some (nextHandle w) \<and>
         intervals (destroy (clipboardObserver option w)) = intervals w \<and>
         step_index (destroy (clipboardObserver option w)) (IFire (nextHandle w)) =
           destroy (clipboardObserver option w)"
proof -
  let ?W = "clipboardObserver option w"
  from assms(2) have t: "timer ?W = Some (nextHandle w)"
    by (cases "opt_textChange option"; cases "opt_imageChange option")
       (simp_all add: index_defs host_defs Let_def)
  from assms(2) have i: "intervals ?W = intervals w @ [(nextHandle w, duration ?W)]"
    by (cases "opt_textChange option"; cases "opt_imageChange option")
       (simp_all add: index_defs host_defs Let_def)
  from assms(1) have f: "filter (\<lambda>e. fst e \<noteq> nextHandle w) (intervals w) = intervals w"
    by (induction "intervals w") (auto simp: filter_id_conv)
  have d: "intervals (destroy ?W) = intervals w"
    by (simp add: destroy_def clearInterval_def t i f)
  from assms(1) have "nextHandle w \<notin> fst ` set (intervals w)"
    by auto
  with d have "step_index (destroy ?W) (IFire (nextHandle w)) = destroy ?W"
    by simp
  with t d show ?thesis by simp
qed

theorem destroy_cancels_timer_witness:
  "intervals (clipboardObserver
      \<lparr>opt_duration = None, opt_textChange = Some returning, opt_imageChange = None\<rparr>
      (boot ''A'' emptyImage)) = [(0, Some 500)] \<and>
   intervals (destroy (clipboardObserver
      \<lparr>opt_duration = None, opt_textChange = Some returning, opt_imageChange = None\<rparr>
      (boot ''A'' emptyImage))) = []"
proof -
  have h: "\<forall>e \<in> set (intervals (boot ''A'' emptyImage)). fst e < nextHandle (boot ''A'' emptyImage)"
    by (simp add: boot_def)
  have c: "configured (opt_textChange
      \<lparr>opt_duration = None, opt_textChange = Some returning, opt_imageChange = None\<rparr>) \<or>
    configured (opt_imageChange
      \<lparr>opt_duration = None, opt_textChange = Some returning, opt_imageChange = None\<rparr>)"
    by simp
  have "intervals (clipboardObserver
      \<lparr>opt_duration = None, opt_textChange = Some returning, opt_imageChange = None\<rparr>
      (boot ''A'' emptyImage)) = [(0, Some 500)]"
    by (simp add: boot_def index_defs host_defs Let_def)
  with destroy_cancels_timer [OF h c] show ?thesis
    by (simp add: boot_def)
qed

section \<open>The polling interval\<close>

lemma constructor_duration: "duration (constructor options w) = opt_duration options"
  by (simp add: constructor_def start_def setTimer_duration seed_intervals Let_def)

text \<open>In \<^verbatim>\<open>src/index.js\<close> an absent duration becomes the default of 500.\<close>

lemma clipboardObserver_default_duration:
  assumes "opt_duration option = None"
    and "opt_textChange option \<noteq> None \<or> opt_imageChange option \<noteq> None"
  shows "intervals (clipboardObserver option w) = intervals w @ [(nextHandle w, Some 500)]"
  using assms
  by (auto simp: index_defs host_defs Let_def split: option.splits)

theorem clipboardObserver_default_duration_witness:
  "intervals (clipboardObserver
      \<lparr>opt_duration = None, opt_textChange = Some returning, opt_imageChange = None\<rparr>
      (boot ''A'' emptyImage)) = [(0, Some 500)]"
  using clipboardObserver_default_duration [of
      "\<lparr>opt_duration = None, opt_textChange = Some returning, opt_imageChange = None\<rparr>"
      "boot ''A'' emptyImage"]
  by (simp add: boot_def)

text \<open>
  C8. An observer constructed without a duration is to poll every 500 milliseconds.
  The class's constructor assigns the absent option over the initialiser
  \<^verbatim>\<open>duration = 500\<close>, so the delay given to \<^verbatim>\<open>setInterval\<close> is \<^verbatim>\<open>undefined\<close>.
\<close>

theorem constructor_overwrites_default_duration:
  "intervals (constructor
       \<lparr>opt_duration = None, opt_textChange = Some returning, opt_imageChange = None\<rparr>
       (boot ''A'' emptyImage)) = [(0, None)]"
  by (simp add: boot_def host_defs class_defs Let_def)

section \<open>Seeding and the first tick\<close>

lemma clipboardObserver_seeded:
  "beforeText (clipboardObserver option w) =
     (if configured (opt_textChange option) then Some (clipText w) else None)"
  "beforeImage (clipboardObserver option w) =
     (if configured (opt_imageChange option) then Some (clipImage w) else None)"
  "trace (clipboardObserver option w) =
     trace w @ (if configured (opt_textChange option) then [ReadText] else [])
             @ (if configured (opt_imageChange option) then [ReadImage] else [])"
  by (cases "opt_textChange option"; cases "opt_imageChange option";
      simp add: index_defs host_defs Let_def)+

lemma tickText_index_same:
  "beforeText w = Some (clipText w) \<Longrightarrow>
   tickText_index w =
     (None, if configured (textChange w) then w\<lparr>trace := trace w @ [ReadText]\<rparr> else w)"
  by (cases "textChange w") (simp_all add: tickText_index_def readText_def truthy_isDiffText_index)

lemma tickText_class_same:
  "beforeText w = Some (clipText w) \<Longrightarrow>
   tickText_class w =
     (None, if configured (textChange w) then w\<lparr>trace := trace w @ [ReadText]\<rparr> else w)"
  by (cases "textChange w") (simp_all add: tickText_class_def readText_def truthy_isDiffText_class)

lemma tickImage_index_same:
  "beforeImage w = Some (clipImage w) \<Longrightarrow>
   tickImage_index w =
     (None, if configured (imageChange w) then w\<lparr>trace := trace w @ [ReadImage]\<rparr> else w)"
  by (cases "imageChange w")
     (simp_all add: tickImage_index_def readImage_def isDiffImage_index_def)

lemma tickImage_class_same:
  "beforeImage w = Some (clipImage w) \<Longrightarrow>
   tickImage_class w =
     (None, if configured (imageChange w) then w\<lparr>trace := trace w @ [ReadImage]\<rparr> else w)"
  by (cases "imageChange w")
     (simp_all add: tickImage_class_def readImage_def isDiffImage_class_def)

lemma tick_index_after_construction:
  "tick_index (clipboardObserver option w) =
     (None, (clipboardObserver option w)\<lparr>trace := trace (clipboardObserver option w)
         @ (if configured (opt_textChange option) then [ReadText] else [])
         @ (if configured (opt_imageChange option) then [ReadImage] else [])\<rparr>)"
  by (cases "opt_textChange option"; cases "opt_imageChange option";
      simp add: index_defs host_defs Let_def truthy_isDiffText_index isDiffImage_index_def)

lemma start_seeded:
  "beforeText (start w) = (if configured (textChange w) then Some (clipText w) else beforeText w)"
  "beforeImage (start w) = (if configured (imageChange w) then Some (clipImage w) else beforeImage w)"
  "trace (start w) =
     trace w @ (if configured (textChange w) then [ReadText] else [])
             @ (if configured (imageChange w) then [ReadImage] else [])"
  by (cases "textChange w"; cases "imageChange w";
      simp add: class_defs host_defs Let_def)+

lemma tick_class_after_start:
  "tick_class (start w) =
     (None, (start w)\<lparr>trace := trace (start w)
         @ (if configured (textChange w) then [ReadText] else [])
         @ (if configured (imageChange w) then [ReadImage] else [])\<rparr>)"
  by (cases "textChange w"; cases "imageChange w";
      simp add: class_defs host_defs Let_def truthy_isDiffText_class isDiffImage_class_def)

lemma constructor_seeded:
  "beforeText (constructor options w) =
     (if configured (opt_textChange options) then Some (clipText w) else None)"
  "beforeImage (constructor options w) =
     (if configured (opt_imageChange options) then Some (clipImage w) else None)"
  "trace (constructor options w) =
     trace w @ (if configured (opt_textChange options) then [ReadText] else [])
             @ (if configured (opt_imageChange options) then [ReadImage] else [])"
  by (cases "opt_textChange options"; cases "opt_imageChange options";
      simp add: class_defs host_defs Let_def)+

lemma tick_class_after_construction:
  "tick_class (constructor options w) =
     (None, (constructor options w)\<lparr>trace := trace (constructor options w)
         @ (if configured (opt_textChange options) then [ReadText] else [])
         @ (if configured (opt_imageChange options) then [ReadImage] else [])\<rparr>)"
  by (cases "opt_textChange options"; cases "opt_imageChange options";
      simp add: class_defs host_defs Let_def truthy_isDiffText_class isDiffImage_class_def)

text \<open>
  C5. Construction with a callback (either variant) and \<^verbatim>\<open>start()\<close> set the last-known
  value of every configured channel from a clipboard read, before any tick. A tick
  that follows while the clipboard is as it was ends normally, changes nothing of the
  observer, and adds to the trace only the reads of the configured channels: no
  callback is called.
\<close>

theorem first_tick_after_seeding_is_silent:
  "beforeText (clipboardObserver option w) =
     (if configured (opt_textChange option) then Some (clipText w) else None) \<and>
   beforeImage (clipboardObserver option w) =
     (if configured (opt_imageChange option) then Some (clipImage w) else None) \<and>
   tick_index (clipboardObserver option w) =
     (None, (clipboardObserver option w)\<lparr>trace := trace (clipboardObserver option w)
         @ (if configured (opt_textChange option) then [ReadText] else [])
         @ (if configured (opt_imageChange option) then [ReadImage] else [])\<rparr>) \<and>
   beforeText (constructor option w) =
     (if configured (opt_textChange option) then Some (clipText w) else None) \<and>
   beforeImage (constructor option w) =
     (if configured (opt_imageChange option) then Some (clipImage w) else None) \<and>
   tick_class (constructor option w) =
     (None, (constructor option w)\<lparr>trace := trace (constructor option w)
         @ (if configured (opt_textChange option) then [ReadText] else [])
         @ (if configured (opt_imageChange option) then [ReadImage] else [])\<rparr>) \<and>
   beforeText (start w) =
     (if configured (textChange w) then Some (clipText w) else beforeText w) \<and>
   beforeImage (start w) =
     (if configured (imageChange w) then Some (clipImage w) else beforeImage w) \<and>
   tick_class (start w) =
     (None, (start w)\<lparr>trace := trace (start w)
         @ (if configured (textChange w) then [ReadText] else [])
         @ (if configured (imageChange w) then [ReadImage] else [])\<rparr>)"
  using clipboardObserver_seeded(1,2) [of option w] tick_index_after_construction [of option w]
    constructor_seeded(1,2) [of option w] tick_class_after_construction [of option w]
    start_seeded(1,2) [of w] tick_class_after_start [of w]
  by blast

section \<open>No image reads without an image callback\<close>

lemma tick_index_no_image:
  assumes "imageChange w = None"
  shows "imageChange (snd (tick_index w)) = None"
    and "ReadImage \<in> set (trace (snd (tick_index w))) = (ReadImage \<in> set (trace w))"
  using assms
  by (auto simp: tick_index_def tickText_index_def tickImage_index_def readText_def Let_def
      split: option.splits completion.splits)

lemma tick_class_no_image:
  assumes "imageChange w = None"
  shows "imageChange (snd (tick_class w)) = None"
    and "ReadImage \<in> set (trace (snd (tick_class w))) = (ReadImage \<in> set (trace w))"
  using assms
  by (auto simp: tick_class_def tickText_class_def tickImage_class_def readText_def Let_def
      split: option.splits completion.splits)

lemma step_index_no_image:
  assumes "imageChange w = None"
  shows "imageChange (step_index w x) = None"
    and "ReadImage \<in> set (trace (step_index w x)) = (ReadImage \<in> set (trace w))"
  using assms tick_index_no_image [of w]
  by (cases x; simp add: destroy_def clearInterval_def split: option.splits)+

lemma step_class_no_image:
  assumes "imageChange w = None"
  shows "imageChange (step_class w x) = None"
    and "ReadImage \<in> set (trace (step_class w x)) = (ReadImage \<in> set (trace w))"
  using assms tick_class_no_image [of w]
  by (cases x; simp add: start_def stop_def setTimer_def setInterval_def
        setClipboardDefaultValue_def readText_def Let_def)+

lemma run_index_no_image:
  "imageChange w = None \<Longrightarrow>
   ReadImage \<in> set (trace (run_index w xs)) = (ReadImage \<in> set (trace w))"
  unfolding run_index_def
  by (induction xs arbitrary: w) (simp_all add: step_index_no_image)

lemma run_class_no_image:
  "imageChange w = None \<Longrightarrow>
   ReadImage \<in> set (trace (run_class w xs)) = (ReadImage \<in> set (trace w))"
  unfolding run_class_def
  by (induction xs arbitrary: w) (simp_all add: step_class_no_image)

lemma clipboardObserver_imageChange:
  "imageChange (clipboardObserver option w) = opt_imageChange option"
  "textChange (clipboardObserver option w) = opt_textChange option"
  by (cases "opt_textChange option"; cases "opt_imageChange option";
      simp add: index_defs host_defs Let_def)+

lemma constructor_imageChange:
  "imageChange (constructor options w) = opt_imageChange options"
  "textChange (constructor options w) = opt_textChange options"
  by (cases "opt_textChange options"; cases "opt_imageChange options";
      simp add: class_defs host_defs Let_def)+

text \<open>
  C7. An observer constructed without \<^verbatim>\<open>imageChange\<close> never calls \<^verbatim>\<open>readImage()\<close>:
  not when it is constructed, and not in any run of timer ticks, clipboard writes and
  method calls that follows, in either variant.
\<close>

theorem text_only_never_reads_image:
  assumes "opt_imageChange option = None" and "ReadImage \<notin> set (trace w)"
  shows "ReadImage \<notin> set (trace (run_index (clipboardObserver option w) xs)) \<and>
         ReadImage \<notin> set (trace (run_class (constructor option w) ys))"
  using assms
  by (simp add: run_index_no_image run_class_no_image clipboardObserver_imageChange
      constructor_imageChange clipboardObserver_seeded constructor_seeded)

theorem text_only_never_reads_image_witness:
  "trace (run_index (clipboardObserver
       \<lparr>opt_duration = None, opt_textChange = Some returning, opt_imageChange = None\<rparr>
       (boot ''A'' emptyImage)) [IFire 0, IWriteText ''B'', IFire 0, IFire 0])
     = [ReadText, ReadText, ReadText, TextChange ''B'' (Some ''A''), ReadText] \<and>
   ReadImage \<notin> set (trace (run_index (clipboardObserver
       \<lparr>opt_duration = None, opt_textChange = Some returning, opt_imageChange = None\<rparr>
       (boot ''A'' emptyImage)) [IFire 0, IWriteText ''B'', IFire 0, IFire 0])) \<and>
   ReadImage \<notin> set (trace (run_class (constructor
       \<lparr>opt_duration = None, opt_textChange = Some returning, opt_imageChange = None\<rparr>
       (boot ''A'' emptyImage)) [CFire 0, CWriteText ''B'', CFire 0, CStart, CFire 1]))"
proof -
  have t: "trace (run_index (clipboardObserver
       \<lparr>opt_duration = None, opt_textChange = Some returning, opt_imageChange = None\<rparr>
       (boot ''A'' emptyImage)) [IFire 0, IWriteText ''B'', IFire 0, IFire 0])
     = [ReadText, ReadText, ReadText, TextChange ''B'' (Some ''A''), ReadText]"
    by (simp add: run_index_def boot_def host_defs index_defs Let_def returning_def
        isDiffText_index_def js_and_def strict_neq_def)
  have h: "ReadImage \<notin> set (trace (boot ''A'' emptyImage))"
    by (simp add: boot_def)
  show ?thesis
    using t text_only_never_reads_image [OF _ h,
        of "\<lparr>opt_duration = None, opt_textChange = Some returning, opt_imageChange = None\<rparr>"
           "[IFire 0, IWriteText ''B'', IFire 0, IFire 0]"
           "[CFire 0, CWriteText ''B'', CFire 0, CStart, CFire 1]"]
    by simp
qed

section \<open>No callback at all\<close>

lemma tick_index_dormant:
  "textChange w = None \<Longrightarrow> imageChange w = None \<Longrightarrow> tick_index w = (None, w)"
  by (simp add: tick_index_def tickText_index_def tickImage_index_def)

lemma tick_class_dormant:
  "textChange w = None \<Longrightarrow> imageChange w = None \<Longrightarrow> tick_class w = (None, w)"
  by (simp add: tick_class_def tickText_class_def tickImage_class_def)

lemma step_index_dormant:
  assumes "textChange w = None" and "imageChange w = None" and "timer w = None"
  shows "textChange (step_index w x) = None \<and> imageChange (step_index w x) = None \<and>
         timer (step_index w x) = None \<and> intervals (step_index w x) = intervals w \<and>
         nextHandle (step_index w x) = nextHandle w \<and> trace (step_index w x) = trace w"
  using assms
  by (cases x) (simp_all add: tick_index_dormant destroy_def clearInterval_def)

lemma run_index_dormant:
  assumes "textChange w = None" and "imageChange w = None" and "timer w = None"
  shows "intervals (run_index w xs) = intervals w \<and>
         nextHandle (run_index w xs) = nextHandle w \<and> trace (run_index w xs) = trace w"
  using assms unfolding run_index_def
proof (induction xs arbitrary: w)
  case Nil
  then show ?case by simp
next
  case (Cons x xs)
  from step_index_dormant [OF Cons.prems, of x] Cons.IH [of "step_index w x"]
  show ?case by simp
qed

lemma step_class_dormant:
  assumes "textChange w = None" and "imageChange w = None"
  shows "textChange (step_class w x) = None \<and> imageChange (step_class w x) = None \<and>
         trace (step_class w x) = trace w"
  using assms
  by (cases x)
     (simp_all add: tick_class_dormant start_def stop_def setTimer_def setInterval_def
        setClipboardDefaultValue_def)

lemma run_class_dormant:
  assumes "textChange w = None" and "imageChange w = None"
  shows "trace (run_class w xs) = trace w"
  using assms unfolding run_class_def
proof (induction xs arbitrary: w)
  case Nil
  then show ?case by simp
next
  case (Cons x xs)
  from step_class_dormant [OF Cons.prems, of x] Cons.IH [of "step_class w x"]
  show ?case by simp
qed

lemma clipboardObserver_dormant:
  assumes "opt_textChange option = None" and "opt_imageChange option = None"
  shows "textChange (clipboardObserver option w) = None"
    and "imageChange (clipboardObserver option w) = None"
    and "timer (clipboardObserver option w) = None"
    and "intervals (clipboardObserver option w) = intervals w"
    and "nextHandle (clipboardObserver option w) = nextHandle w"
    and "trace (clipboardObserver option w) = trace w"
  using assms by (simp_all add: index_defs Let_def)

lemma constructor_dormant:
  assumes "opt_textChange options = None" and "opt_imageChange options = None"
  shows "textChange (constructor options w) = None"
    and "imageChange (constructor options w) = None"
    and "timer (constructor options w) = None"
    and "intervals (constructor options w) = intervals w"
    and "nextHandle (constructor options w) = nextHandle w"
    and "trace (constructor options w) = trace w"
    and "duration (constructor options w) = opt_duration options"
  using assms by (simp_all add: constructor_def Let_def)

text \<open>
  C6 as stated: an observer constructed with neither callback never schedules a timer,
  and \<^verbatim>\<open>start()\<close> is a no-op. The class's \<^verbatim>\<open>start()\<close> schedules a timer on such an
  observer.
\<close>

theorem start_of_dormant_observer_schedules:
  "intervals (constructor
       \<lparr>opt_duration = Some 100, opt_textChange = None, opt_imageChange = None\<rparr>
       (boot ''A'' emptyImage)) = [] \<and>
   intervals (start (constructor
       \<lparr>opt_duration = Some 100, opt_textChange = None, opt_imageChange = None\<rparr>
       (boot ''A'' emptyImage))) = [(0, Some 100)]"
  by (simp add: boot_def host_defs class_defs Let_def)

text \<open>
  C6, amended. For an observer constructed with neither callback: construction
  schedules no timer and reads nothing; no run ever reads the clipboard or calls a
  callback; in \<^verbatim>\<open>src/index.js\<close> no run ever schedules a timer and \<^verbatim>\<open>destroy()\<close> changes
  nothing; in the class \<^verbatim>\<open>start()\<close> schedules one timer, whose tick changes nothing.
\<close>

theorem no_callback_no_reads:
  assumes "opt_textChange option = None" and "opt_imageChange option = None"
  shows "intervals (run_index (clipboardObserver option w) xs) = intervals w \<and>
         nextHandle (run_index (clipboardObserver option w) xs) = nextHandle w \<and>
         trace (run_index (clipboardObserver option w) xs) = trace w \<and>
         destroy (clipboardObserver option w) = clipboardObserver option w \<and>
         intervals (constructor option w) = intervals w \<and>
         nextHandle (constructor option w) = nextHandle w \<and>
         trace (constructor option w) = trace w \<and>
         trace (run_class (constructor option w) ys) = trace w \<and>
         intervals (start (constructor option w)) =
           intervals w @ [(nextHandle w, opt_duration option)] \<and>
         tick_class (start (constructor option w)) = (None, start (constructor option w))"
proof -
  note i = clipboardObserver_dormant [OF assms, of w]
  note c = constructor_dormant [OF assms, of w]
  have "destroy (clipboardObserver option w) = clipboardObserver option w"
    by (simp add: destroy_def clearInterval_def i(3))
  moreover have "tick_class (start (constructor option w)) = (None, start (constructor option w))"
    using tick_class_after_start [of "constructor option w"] by (simp add: c)
  ultimately show ?thesis
    using run_index_dormant [OF i(1,2,3), of xs] run_class_dormant [OF c(1,2), of ys]
    by (simp add: i c start_intervals)
qed

theorem no_callback_no_reads_witness:
  "intervals (run_index (clipboardObserver
       \<lparr>opt_duration = Some 100, opt_textChange = None, opt_imageChange = None\<rparr>
       (boot ''A'' emptyImage)) [IFire 0, IWriteText ''B'', IDestroy, IFire 0]) = [] \<and>
   trace (run_index (clipboardObserver
       \<lparr>opt_duration = Some 100, opt_textChange = None, opt_imageChange = None\<rparr>
       (boot ''A'' emptyImage)) [IFire 0, IWriteText ''B'', IDestroy, IFire 0]) = [] \<and>
   trace (run_class (constructor
       \<lparr>opt_duration = Some 100, opt_textChange = None, opt_imageChange = None\<rparr>
       (boot ''A'' emptyImage)) [CStart, CWriteText ''B'', CFire 0, CStop, CFire 1]) = [] \<and>
   intervals (start (constructor
       \<lparr>opt_duration = Some 100, opt_textChange = None, opt_imageChange = None\<rparr>
       (boot ''A'' emptyImage))) = [(0, Some 100)]"
  using no_callback_no_reads [of
      "\<lparr>opt_duration = Some 100, opt_textChange = None, opt_imageChange = None\<rparr>"
      "boot ''A'' emptyImage" "[IFire 0, IWriteText ''B'', IDestroy, IFire 0]"
      "[CStart, CWriteText ''B'', CFire 0, CStop, CFire 1]"]
  by (simp add: boot_def)

section \<open>A callback that throws\<close>

text \<open>What one channel's step does, by cases.\<close>

lemma tickText_class_cases:
  "tickText_class w =
     (case textChange w of
        None \<Rightarrow> (None, w)
      | Some f \<Rightarrow>
          if truthy (isDiffText_class (text_val (beforeText w)) (JString (clipText w))) then
            (case f (clipText w) (beforeText w) of
               Throws \<Rightarrow>
                 (Some UserError,
                  w\<lparr>trace := trace w @ [ReadText, TextChange (clipText w) (beforeText w)]\<rparr>)
             | Returns \<Rightarrow>
                 (None,
                  w\<lparr>trace := trace w @ [ReadText, TextChange (clipText w) (beforeText w)],
                    beforeText := Some (clipText w)\<rparr>))
          else (None, w\<lparr>trace := trace w @ [ReadText]\<rparr>))"
  by (simp add: tickText_class_def readText_def Let_def split: option.split completion.split)

lemma tickText_index_cases:
  "tickText_index w =
     (case textChange w of
        None \<Rightarrow> (None, w)
      | Some f \<Rightarrow>
          if truthy (isDiffText_index (text_val (beforeText w)) (JString (clipText w))) then
            (case f (clipText w) (beforeText w) of
               Throws \<Rightarrow>
                 (Some UserError,
                  w\<lparr>trace := trace w @ [ReadText, TextChange (clipText w) (beforeText w)]\<rparr>)
             | Returns \<Rightarrow>
                 (None,
                  w\<lparr>trace := trace w @ [ReadText, TextChange (clipText w) (beforeText w)],
                    beforeText := Some (clipText w)\<rparr>))
          else (None, w\<lparr>trace := trace w @ [ReadText]\<rparr>))"
  by (simp add: tickText_index_def readText_def Let_def split: option.split completion.split)

lemma tickImage_class_cases:
  "tickImage_class w =
     (case imageChange w of
        None \<Rightarrow> (None, w)
      | Some g \<Rightarrow>
          (case isDiffImage_class (beforeImage w) (Some (clipImage w)) of
             Inl e \<Rightarrow> (Some e, w\<lparr>trace := trace w @ [ReadImage]\<rparr>)
           | Inr d \<Rightarrow>
               if truthy d then
                 (case g (clipImage w) (beforeImage w) of
                    Throws \<Rightarrow>
                      (Some UserError,
                       w\<lparr>trace := trace w @ [ReadImage, ImageChange (clipImage w) (beforeImage w)]\<rparr>)
                  | Returns \<Rightarrow>
                      (None,
                       w\<lparr>trace := trace w @ [ReadImage, ImageChange (clipImage w) (beforeImage w)],
                         beforeImage := Some (clipImage w)\<rparr>))
               else (None, w\<lparr>trace := trace w @ [ReadImage]\<rparr>)))"
  by (simp add: tickImage_class_def readImage_def Let_def
      split: option.split completion.split sum.split)

lemma tickImage_index_cases:
  "tickImage_index w =
     (case imageChange w of
        None \<Rightarrow> (None, w)
      | Some g \<Rightarrow>
          (case isDiffImage_index (beforeImage w) (Some (clipImage w)) of
             Inl e \<Rightarrow> (Some e, w\<lparr>trace := trace w @ [ReadImage]\<rparr>)
           | Inr d \<Rightarrow>
               if truthy d then
                 (case g (clipImage w) (beforeImage w) of
                    Throws \<Rightarrow>
                      (Some UserError,
                       w\<lparr>trace := trace w @ [ReadImage, ImageChange (clipImage w) (beforeImage w)]\<rparr>)
                  | Returns \<Rightarrow>
                      (None,
                       w\<lparr>trace := trace w @ [ReadImage, ImageChange (clipImage w) (beforeImage w)],
                         beforeImage := Some (clipImage w)\<rparr>))
               else (None, w\<lparr>trace := trace w @ [ReadImage]\<rparr>)))"
  by (simp add: tickImage_index_def readImage_def Let_def
      split: option.split completion.split sum.split)

text \<open>
  A change of the text is delivered once: the tick that sees it calls the callback
  with the new and the previous text and stores the new text, and the next tick only
  reads.
\<close>

theorem change_delivered_once:
  assumes "textChange w = Some f" and "imageChange w = None"
    and "beforeText w = Some p" and "p \<noteq> []" and "clipText w \<noteq> []" and "clipText w \<noteq> p"
    and "f (clipText w) (Some p) = Returns"
  shows "tick_index w =
           (None, w\<lparr>trace := trace w @ [ReadText, TextChange (clipText w) (Some p)],
                    beforeText := Some (clipText w)\<rparr>) \<and>
         tick_class w =
           (None, w\<lparr>trace := trace w @ [ReadText, TextChange (clipText w) (Some p)],
                    beforeText := Some (clipText w)\<rparr>) \<and>
         trace (snd (tick_index (snd (tick_index w)))) =
           trace w @ [ReadText, TextChange (clipText w) (Some p), ReadText] \<and>
         trace (snd (tick_class (snd (tick_class w)))) =
           trace w @ [ReadText, TextChange (clipText w) (Some p), ReadText]"
  using assms
  by (simp add: tick_index_def tick_class_def tickText_index_cases tickText_class_cases
      tickImage_index_cases tickImage_class_cases truthy_isDiffText_index truthy_isDiffText_class)

theorem change_delivered_once_witness:
  "trace (run_class (constructor
      \<lparr>opt_duration = Some 100, opt_textChange = Some returning, opt_imageChange = None\<rparr>
      (boot ''A'' emptyImage)) [CFire 0, CWriteText ''B'', CFire 0, CFire 0])
     = [ReadText, ReadText, ReadText, TextChange ''B'' (Some ''A''), ReadText]"
proof -
  define w where "w = run_class (constructor
      \<lparr>opt_duration = Some 100, opt_textChange = Some returning, opt_imageChange = None\<rparr>
      (boot ''A'' emptyImage)) [CFire 0, CWriteText ''B'']"
  have w: "textChange w = Some returning" "imageChange w = None" "beforeText w = Some ''A''"
    "clipText w = ''B''" "trace w = [ReadText, ReadText]" "intervals w = [(0, Some 100)]"
    by (simp_all add: w_def run_class_def boot_def host_defs class_defs Let_def
        isDiffText_class_def js_and_def strict_neq_def)
  have h: "''A'' \<noteq> []" "clipText w \<noteq> []" "clipText w \<noteq> ''A''"
    "returning (clipText w) (Some ''A'') = Returns"
    by (simp_all add: w returning_def)
  note r = change_delivered_once [OF w(1) w(2) w(3) h]
  from r have a: "tick_class w =
      (None, w\<lparr>trace := trace w @ [ReadText, TextChange (clipText w) (Some ''A'')],
               beforeText := Some (clipText w)\<rparr>)"
    by blast
  from r have b: "trace (snd (tick_class (snd (tick_class w)))) =
      trace w @ [ReadText, TextChange (clipText w) (Some ''A''), ReadText]"
    by blast
  from a have i: "intervals (snd (tick_class w)) = intervals w"
    by simp
  have "trace (run_class w [CFire 0, CFire 0]) =
      [ReadText, ReadText, ReadText, TextChange ''B'' (Some ''A''), ReadText]"
    by (simp add: run_class_def i b w(4,5,6))
  then show ?thesis
    by (simp add: w_def run_class_def)
qed

lemma tick_class_beforeText:
  "beforeText (snd (tick_class w)) =
     (case textChange w of
        None \<Rightarrow> beforeText w
      | Some f \<Rightarrow>
          if truthy (isDiffText_class (text_val (beforeText w)) (JString (clipText w)))
             \<and> f (clipText w) (beforeText w) = Returns
          then Some (clipText w) else beforeText w)"
  by (simp add: tick_class_def tickText_class_cases tickImage_class_cases
      split: option.split completion.split sum.split)

lemma tick_class_beforeImage:
  "beforeImage (snd (tick_class w)) =
     (case imageChange w of
        None \<Rightarrow> beforeImage w
      | Some g \<Rightarrow>
          if fst (tickText_class w) = None
             \<and> (case isDiffImage_class (beforeImage w) (Some (clipImage w)) of
                   Inl e \<Rightarrow> False | Inr d \<Rightarrow> truthy d)
             \<and> g (clipImage w) (beforeImage w) = Returns
          then Some (clipImage w) else beforeImage w)"
  by (simp add: tick_class_def tickText_class_cases tickImage_class_cases
      split: option.split completion.split sum.split)


lemma tickText_class_frame:
  "clipText (snd (tickText_class w)) = clipText w"
  "clipImage (snd (tickText_class w)) = clipImage w"
  "textChange (snd (tickText_class w)) = textChange w"
  "imageChange (snd (tickText_class w)) = imageChange w"
  "beforeImage (snd (tickText_class w)) = beforeImage w"
  by (simp_all add: tickText_class_cases split: option.split completion.split)

lemma tickText_class_throws:
  assumes "fst (tickText_class w) = Some e"
  shows "tickText_class w =
           (Some UserError,
            w\<lparr>trace := trace w @ [ReadText, TextChange (clipText w) (beforeText w)]\<rparr>)"
  using assms
  by (auto simp: tickText_class_cases split: option.splits completion.splits if_splits)

lemma tickText_class_settled:
  assumes "fst (tickText_class w) = None"
    and "textChange w' = textChange w" and "clipText w' = clipText w"
    and "beforeText w' = beforeText (snd (tickText_class w))"
  shows "tickText_class w' =
           (None, if configured (textChange w') then w'\<lparr>trace := trace w' @ [ReadText]\<rparr> else w')"
proof (cases "textChange w")
  case None
  with assms(2) show ?thesis by (simp add: tickText_class_cases)
next
  case (Some f)
  show ?thesis
  proof (cases "truthy (isDiffText_class (text_val (beforeText w)) (JString (clipText w)))")
    case True
    with Some assms(1) have r: "f (clipText w) (beforeText w) = Returns"
      by (simp add: tickText_class_cases split: completion.splits)
    with Some True assms(4) have "beforeText w' = Some (clipText w')"
      by (simp add: tickText_class_cases assms(3))
    then show ?thesis by (rule tickText_class_same)
  next
    case False
    with Some assms(4) have "beforeText w' = beforeText w"
      by (simp add: tickText_class_cases)
    with False Some assms(2,3) show ?thesis
      by (simp add: tickText_class_cases)
  qed
qed

lemma tickImage_class_throws:
  assumes "fst (tickImage_class v) = Some UserError"
    and "imageChange v' = imageChange v" and "clipImage v' = clipImage v"
    and "beforeImage v' = beforeImage v"
  shows "tickImage_class v' =
           (Some UserError,
            v'\<lparr>trace := trace v' @ [ReadImage, ImageChange (clipImage v) (beforeImage v)]\<rparr>)"
  using assms
  by (auto simp: tickImage_class_cases isDiffImage_class_def
      split: option.splits completion.splits if_splits)


lemma tick_class_redelivers:
  assumes "fst (tick_class w) = Some UserError"
  shows "fst (tick_class (snd (tick_class w))) = Some UserError \<and>
         last (trace (snd (tick_class (snd (tick_class w))))) = last (trace (snd (tick_class w))) \<and>
         (last (trace (snd (tick_class w))) = TextChange (clipText w) (beforeText w) \<or>
          last (trace (snd (tick_class w))) = ImageChange (clipImage w) (beforeImage w))"
proof (cases "fst (tickText_class w)")
  case (Some e)
  define w1 where "w1 = w\<lparr>trace := trace w @ [ReadText, TextChange (clipText w) (beforeText w)]\<rparr>"
  from tickText_class_throws [OF Some] have t: "tickText_class w = (Some UserError, w1)"
    by (simp add: w1_def)
  then have 1: "tick_class w = (Some UserError, w1)"
    by (simp add: tick_class_def)
  from t have "tickText_class w1 =
      (Some UserError, w1\<lparr>trace := trace w1 @ [ReadText, TextChange (clipText w) (beforeText w)]\<rparr>)"
    by (auto simp: tickText_class_cases w1_def split: option.splits completion.splits if_splits)
  then have 2: "tick_class w1 =
      (Some UserError, w1\<lparr>trace := trace w1 @ [ReadText, TextChange (clipText w) (beforeText w)]\<rparr>)"
    by (simp add: tick_class_def)
  show ?thesis by (simp add: 1 2) (simp add: w1_def)
next
  case None
  define w1 where "w1 = snd (tickText_class w)"
  define w2 where "w2 = w1\<lparr>trace := trace w1 @ [ReadImage, ImageChange (clipImage w) (beforeImage w)]\<rparr>"
  from None have t: "tickText_class w = (None, w1)"
    by (simp add: w1_def prod_eq_iff)
  note fr = tickText_class_frame [of w, folded w1_def]
  from t assms have i: "fst (tickImage_class w1) = Some UserError"
    by (simp add: tick_class_def)
  from tickImage_class_throws [OF i, of w1] have i1: "tickImage_class w1 = (Some UserError, w2)"
    by (simp add: w2_def fr)
  with t have 1: "tick_class w = (Some UserError, w2)"
    by (simp add: tick_class_def)
  have "tickText_class w2 =
      (None, if configured (textChange w2) then w2\<lparr>trace := trace w2 @ [ReadText]\<rparr> else w2)"
    by (rule tickText_class_settled [OF None]) (simp_all add: w2_def w1_def tickText_class_frame)
  moreover
  have "tickImage_class (if configured (textChange w2) then w2\<lparr>trace := trace w2 @ [ReadText]\<rparr> else w2) =
      (Some UserError,
       (if configured (textChange w2) then w2\<lparr>trace := trace w2 @ [ReadText]\<rparr> else w2)
         \<lparr>trace := trace (if configured (textChange w2) then w2\<lparr>trace := trace w2 @ [ReadText]\<rparr> else w2)
             @ [ReadImage, ImageChange (clipImage w1) (beforeImage w1)]\<rparr>)"
    by (rule tickImage_class_throws [OF i]) (simp_all add: w2_def)
  ultimately have 2: "fst (tick_class w2) = Some UserError \<and>
      last (trace (snd (tick_class w2))) = ImageChange (clipImage w) (beforeImage w)"
    by (simp add: tick_class_def fr)
  show ?thesis by (simp add: 1 2) (simp add: w2_def)
qed

lemma tick_index_beforeText:
  "beforeText (snd (tick_index w)) =
     (case textChange w of
        None \<Rightarrow> beforeText w
      | Some f \<Rightarrow>
          if truthy (isDiffText_index (text_val (beforeText w)) (JString (clipText w)))
             \<and> f (clipText w) (beforeText w) = Returns
          then Some (clipText w) else beforeText w)"
  by (simp add: tick_index_def tickText_index_cases tickImage_index_cases
      split: option.split completion.split sum.split)

lemma tick_index_beforeImage:
  "beforeImage (snd (tick_index w)) =
     (case imageChange w of
        None \<Rightarrow> beforeImage w
      | Some g \<Rightarrow>
          if fst (tickText_index w) = None
             \<and> (case isDiffImage_index (beforeImage w) (Some (clipImage w)) of
                   Inl e \<Rightarrow> False | Inr d \<Rightarrow> truthy d)
             \<and> g (clipImage w) (beforeImage w) = Returns
          then Some (clipImage w) else beforeImage w)"
  by (simp add: tick_index_def tickText_index_cases tickImage_index_cases
      split: option.split completion.split sum.split)


lemma tickText_index_frame:
  "clipText (snd (tickText_index w)) = clipText w"
  "clipImage (snd (tickText_index w)) = clipImage w"
  "textChange (snd (tickText_index w)) = textChange w"
  "imageChange (snd (tickText_index w)) = imageChange w"
  "beforeImage (snd (tickText_index w)) = beforeImage w"
  by (simp_all add: tickText_index_cases split: option.split completion.split)

lemma tickText_index_throws:
  assumes "fst (tickText_index w) = Some e"
  shows "tickText_index w =
           (Some UserError,
            w\<lparr>trace := trace w @ [ReadText, TextChange (clipText w) (beforeText w)]\<rparr>)"
  using assms
  by (auto simp: tickText_index_cases split: option.splits completion.splits if_splits)

lemma tickText_index_settled:
  assumes "fst (tickText_index w) = None"
    and "textChange w' = textChange w" and "clipText w' = clipText w"
    and "beforeText w' = beforeText (snd (tickText_index w))"
  shows "tickText_index w' =
           (None, if configured (textChange w') then w'\<lparr>trace := trace w' @ [ReadText]\<rparr> else w')"
proof (cases "textChange w")
  case None
  with assms(2) show ?thesis by (simp add: tickText_index_cases)
next
  case (Some f)
  show ?thesis
  proof (cases "truthy (isDiffText_index (text_val (beforeText w)) (JString (clipText w)))")
    case True
    with Some assms(1) have r: "f (clipText w) (beforeText w) = Returns"
      by (simp add: tickText_index_cases split: completion.splits)
    with Some True assms(4) have "beforeText w' = Some (clipText w')"
      by (simp add: tickText_index_cases assms(3))
    then show ?thesis by (rule tickText_index_same)
  next
    case False
    with Some assms(4) have "beforeText w' = beforeText w"
      by (simp add: tickText_index_cases)
    with False Some assms(2,3) show ?thesis
      by (simp add: tickText_index_cases)
  qed
qed

lemma tickImage_index_throws:
  assumes "fst (tickImage_index v) = Some UserError"
    and "imageChange v' = imageChange v" and "clipImage v' = clipImage v"
    and "beforeImage v' = beforeImage v"
  shows "tickImage_index v' =
           (Some UserError,
            v'\<lparr>trace := trace v' @ [ReadImage, ImageChange (clipImage v) (beforeImage v)]\<rparr>)"
  using assms
  by (auto simp: tickImage_index_cases isDiffImage_index_def
      split: option.splits completion.splits if_splits)


lemma tick_index_redelivers:
  assumes "fst (tick_index w) = Some UserError"
  shows "fst (tick_index (snd (tick_index w))) = Some UserError \<and>
         last (trace (snd (tick_index (snd (tick_index w))))) = last (trace (snd (tick_index w))) \<and>
         (last (trace (snd (tick_index w))) = TextChange (clipText w) (beforeText w) \<or>
          last (trace (snd (tick_index w))) = ImageChange (clipImage w) (beforeImage w))"
proof (cases "fst (tickText_index w)")
  case (Some e)
  define w1 where "w1 = w\<lparr>trace := trace w @ [ReadText, TextChange (clipText w) (beforeText w)]\<rparr>"
  from tickText_index_throws [OF Some] have t: "tickText_index w = (Some UserError, w1)"
    by (simp add: w1_def)
  then have 1: "tick_index w = (Some UserError, w1)"
    by (simp add: tick_index_def)
  from t have "tickText_index w1 =
      (Some UserError, w1\<lparr>trace := trace w1 @ [ReadText, TextChange (clipText w) (beforeText w)]\<rparr>)"
    by (auto simp: tickText_index_cases w1_def split: option.splits completion.splits if_splits)
  then have 2: "tick_index w1 =
      (Some UserError, w1\<lparr>trace := trace w1 @ [ReadText, TextChange (clipText w) (beforeText w)]\<rparr>)"
    by (simp add: tick_index_def)
  show ?thesis by (simp add: 1 2) (simp add: w1_def)
next
  case None
  define w1 where "w1 = snd (tickText_index w)"
  define w2 where "w2 = w1\<lparr>trace := trace w1 @ [ReadImage, ImageChange (clipImage w) (beforeImage w)]\<rparr>"
  from None have t: "tickText_index w = (None, w1)"
    by (simp add: w1_def prod_eq_iff)
  note fr = tickText_index_frame [of w, folded w1_def]
  from t assms have i: "fst (tickImage_index w1) = Some UserError"
    by (simp add: tick_index_def)
  from tickImage_index_throws [OF i, of w1] have i1: "tickImage_index w1 = (Some UserError, w2)"
    by (simp add: w2_def fr)
  with t have 1: "tick_index w = (Some UserError, w2)"
    by (simp add: tick_index_def)
  have "tickText_index w2 =
      (None, if configured (textChange w2) then w2\<lparr>trace := trace w2 @ [ReadText]\<rparr> else w2)"
    by (rule tickText_index_settled [OF None]) (simp_all add: w2_def w1_def tickText_index_frame)
  moreover
  have "tickImage_index (if configured (textChange w2) then w2\<lparr>trace := trace w2 @ [ReadText]\<rparr> else w2) =
      (Some UserError,
       (if configured (textChange w2) then w2\<lparr>trace := trace w2 @ [ReadText]\<rparr> else w2)
         \<lparr>trace := trace (if configured (textChange w2) then w2\<lparr>trace := trace w2 @ [ReadText]\<rparr> else w2)
             @ [ReadImage, ImageChange (clipImage w1) (beforeImage w1)]\<rparr>)"
    by (rule tickImage_index_throws [OF i]) (simp_all add: w2_def)
  ultimately have 2: "fst (tick_index w2) = Some UserError \<and>
      last (trace (snd (tick_index w2))) = ImageChange (clipImage w) (beforeImage w)"
    by (simp add: tick_index_def fr)
  show ?thesis by (simp add: 1 2) (simp add: w2_def)
qed

text \<open>
  C10. In either variant, after a tick the last-known text is the text just read
  exactly when the text callback is configured, the predicate reported a change and
  the callback returned; otherwise it is what it was, in particular when the callback
  threw. The same holds for the image, whose channel is reached only when the text
  channel ended normally. When a tick ends with the exception of a callback, the last
  effect is that callback's call with the current and the last-known value, and the
  next tick (the clipboard untouched) ends the same way with the same call.
\<close>

theorem throwing_callback_keeps_last_known:
  "beforeText (snd (tick_index w)) =
     (case textChange w of
        None \<Rightarrow> beforeText w
      | Some f \<Rightarrow>
          if truthy (isDiffText_index (text_val (beforeText w)) (JString (clipText w)))
             \<and> f (clipText w) (beforeText w) = Returns
          then Some (clipText w) else beforeText w) \<and>
   beforeImage (snd (tick_index w)) =
     (case imageChange w of
        None \<Rightarrow> beforeImage w
      | Some g \<Rightarrow>
          if fst (tickText_index w) = None
             \<and> (case isDiffImage_index (beforeImage w) (Some (clipImage w)) of
                   Inl e \<Rightarrow> False | Inr d \<Rightarrow> truthy d)
             \<and> g (clipImage w) (beforeImage w) = Returns
          then Some (clipImage w) else beforeImage w) \<and>
   (fst (tick_index w) = Some UserError \<longrightarrow>
      fst (tick_index (snd (tick_index w))) = Some UserError \<and>
      last (trace (snd (tick_index (snd (tick_index w))))) = last (trace (snd (tick_index w))) \<and>
      (last (trace (snd (tick_index w))) = TextChange (clipText w) (beforeText w) \<or>
       last (trace (snd (tick_index w))) = ImageChange (clipImage w) (beforeImage w))) \<and>
   beforeText (snd (tick_class w)) =
     (case textChange w of
        None \<Rightarrow> beforeText w
      | Some f \<Rightarrow>
          if truthy (isDiffText_class (text_val (beforeText w)) (JString (clipText w)))
             \<and> f (clipText w) (beforeText w) = Returns
          then Some (clipText w) else beforeText w) \<and>
   beforeImage (snd (tick_class w)) =
     (case imageChange w of
        None \<Rightarrow> beforeImage w
      | Some g \<Rightarrow>
          if fst (tickText_class w) = None
             \<and> (case isDiffImage_class (beforeImage w) (Some (clipImage w)) of
                   Inl e \<Rightarrow> False | Inr d \<Rightarrow> truthy d)
             \<and> g (clipImage w) (beforeImage w) = Returns
          then Some (clipImage w) else beforeImage w) \<and>
   (fst (tick_class w) = Some UserError \<longrightarrow>
      fst (tick_class (snd (tick_class w))) = Some UserError \<and>
      last (trace (snd (tick_class (snd (tick_class w))))) = last (trace (snd (tick_class w))) \<and>
      (last (trace (snd (tick_class w))) = TextChange (clipText w) (beforeText w) \<or>
       last (trace (snd (tick_class w))) = ImageChange (clipImage w) (beforeImage w)))"
  using tick_index_beforeText [of w] tick_index_beforeImage [of w] tick_index_redelivers [of w]
    tick_class_beforeText [of w] tick_class_beforeImage [of w] tick_class_redelivers [of w]
  by blast

theorem throwing_callback_keeps_last_known_witness:
  "fst (tick_index (step_index (clipboardObserver
       \<lparr>opt_duration = Some 100, opt_textChange = Some throwing, opt_imageChange = None\<rparr>
       (boot ''A'' emptyImage)) (IWriteText ''B''))) = Some UserError \<and>
   beforeText (snd (tick_index (step_index (clipboardObserver
       \<lparr>opt_duration = Some 100, opt_textChange = Some throwing, opt_imageChange = None\<rparr>
       (boot ''A'' emptyImage)) (IWriteText ''B'')))) = Some ''A'' \<and>
   fst (tick_index (snd (tick_index (step_index (clipboardObserver
       \<lparr>opt_duration = Some 100, opt_textChange = Some throwing, opt_imageChange = None\<rparr>
       (boot ''A'' emptyImage)) (IWriteText ''B''))))) = Some UserError \<and>
   last (trace (snd (tick_index (snd (tick_index (step_index (clipboardObserver
       \<lparr>opt_duration = Some 100, opt_textChange = Some throwing, opt_imageChange = None\<rparr>
       (boot ''A'' emptyImage)) (IWriteText ''B'')))))))
     = TextChange ''B'' (Some ''A'') \<and>
   fst (tick_class (step_class (constructor
       \<lparr>opt_duration = Some 100, opt_textChange = Some throwing, opt_imageChange = None\<rparr>
       (boot ''A'' emptyImage)) (CWriteText ''B''))) = Some UserError \<and>
   beforeText (snd (tick_class (step_class (constructor
       \<lparr>opt_duration = Some 100, opt_textChange = Some throwing, opt_imageChange = None\<rparr>
       (boot ''A'' emptyImage)) (CWriteText ''B'')))) = Some ''A'' \<and>
   fst (tick_class (snd (tick_class (step_class (constructor
       \<lparr>opt_duration = Some 100, opt_textChange = Some throwing, opt_imageChange = None\<rparr>
       (boot ''A'' emptyImage)) (CWriteText ''B''))))) = Some UserError \<and>
   last (trace (snd (tick_class (snd (tick_class (step_class (constructor
       \<lparr>opt_duration = Some 100, opt_textChange = Some throwing, opt_imageChange = None\<rparr>
       (boot ''A'' emptyImage)) (CWriteText ''B'')))))))
     = TextChange ''B'' (Some ''A'')"
proof -
  define wi where "wi = step_index (clipboardObserver
       \<lparr>opt_duration = Some 100, opt_textChange = Some throwing, opt_imageChange = None\<rparr>
       (boot ''A'' emptyImage)) (IWriteText ''B'')"
  define wc where "wc = step_class (constructor
       \<lparr>opt_duration = Some 100, opt_textChange = Some throwing, opt_imageChange = None\<rparr>
       (boot ''A'' emptyImage)) (CWriteText ''B'')"
  have i: "tick_index wi =
      (Some UserError, wi\<lparr>trace := [ReadText, ReadText, TextChange ''B'' (Some ''A'')]\<rparr>)"
    by (simp add: wi_def boot_def host_defs index_defs Let_def throwing_def
        isDiffText_index_def js_and_def strict_neq_def)
  have c: "tick_class wc =
      (Some UserError, wc\<lparr>trace := [ReadText, ReadText, TextChange ''B'' (Some ''A'')]\<rparr>)"
    by (simp add: wc_def boot_def host_defs class_defs Let_def throwing_def
        isDiffText_class_def js_and_def strict_neq_def)
  have bi: "beforeText wi = Some ''A''"
    by (simp add: wi_def boot_def host_defs index_defs Let_def)
  have bc: "beforeText wc = Some ''A''"
    by (simp add: wc_def boot_def host_defs class_defs Let_def)
  have hi: "fst (tick_index wi) = Some UserError" and hc: "fst (tick_class wc) = Some UserError"
    by (simp_all add: i c)
  have li: "last (trace (snd (tick_index wi))) = TextChange ''B'' (Some ''A'')"
    and lc: "last (trace (snd (tick_class wc))) = TextChange ''B'' (Some ''A'')"
    by (simp_all add: i c)
  from throwing_callback_keeps_last_known [of wi] hi
  have "fst (tick_index (snd (tick_index wi))) = Some UserError \<and>
      last (trace (snd (tick_index (snd (tick_index wi))))) = last (trace (snd (tick_index wi)))"
    by blast
  with li have 1: "fst (tick_index (snd (tick_index wi))) = Some UserError \<and>
      last (trace (snd (tick_index (snd (tick_index wi))))) = TextChange ''B'' (Some ''A'')"
    by simp
  from throwing_callback_keeps_last_known [of wc] hc
  have "fst (tick_class (snd (tick_class wc))) = Some UserError \<and>
      last (trace (snd (tick_class (snd (tick_class wc))))) = last (trace (snd (tick_class wc)))"
    by blast
  with lc have 2: "fst (tick_class (snd (tick_class wc))) = Some UserError \<and>
      last (trace (snd (tick_class (snd (tick_class wc))))) = TextChange ''B'' (Some ''A'')"
    by simp
  have 3: "beforeText (snd (tick_index wi)) = Some ''A''"
    and 4: "beforeText (snd (tick_class wc)) = Some ''A''"
    by (simp_all add: i c bi bc)
  from 1 2 3 4 hi hc show ?thesis
    unfolding wi_def [symmetric] wc_def [symmetric] by blast
qed

section \<open>Several timers on one observer\<close>

text \<open>
  All timers of an observer run the same tick on the same last-known values. A tick
  that follows a tick that ended normally, with the clipboard as it was, finds nothing
  to report.
\<close>

lemma tickImage_class_frame:
  "clipText (snd (tickImage_class w)) = clipText w"
  "clipImage (snd (tickImage_class w)) = clipImage w"
  "textChange (snd (tickImage_class w)) = textChange w"
  "imageChange (snd (tickImage_class w)) = imageChange w"
  "beforeText (snd (tickImage_class w)) = beforeText w"
  by (simp_all add: tickImage_class_cases split: option.split completion.split sum.split)

lemma tickImage_class_settled:
  assumes "fst (tickImage_class v) = None"
    and "imageChange v' = imageChange v" and "clipImage v' = clipImage v"
    and "beforeImage v' = beforeImage (snd (tickImage_class v))"
  shows "tickImage_class v' =
           (None, if configured (imageChange v') then v'\<lparr>trace := trace v' @ [ReadImage]\<rparr> else v')"
proof (cases "imageChange v")
  case None
  with assms(2) show ?thesis by (simp add: tickImage_class_cases)
next
  case (Some g)
  from Some assms(1) obtain d where d: "isDiffImage_class (beforeImage v) (Some (clipImage v)) = Inr d"
    by (auto simp: tickImage_class_cases split: sum.splits)
  show ?thesis
  proof (cases "truthy d")
    case True
    with Some d assms(1) have "g (clipImage v) (beforeImage v) = Returns"
      by (simp add: tickImage_class_cases split: completion.splits)
    with Some d True assms(4) have "beforeImage v' = Some (clipImage v')"
      by (simp add: tickImage_class_cases assms(3))
    then show ?thesis by (rule tickImage_class_same)
  next
    case False
    with Some d assms(4) have "beforeImage v' = beforeImage v"
      by (simp add: tickImage_class_cases)
    with False Some d assms(2,3) show ?thesis
      by (simp add: tickImage_class_cases)
  qed
qed

lemma tick_class_settled:
  assumes "fst (tick_class w) = None"
  shows "tick_class (snd (tick_class w)) =
           (None, (snd (tick_class w))\<lparr>trace := trace (snd (tick_class w))
               @ (if configured (textChange w) then [ReadText] else [])
               @ (if configured (imageChange w) then [ReadImage] else [])\<rparr>)"
proof -
  define w1 where "w1 = snd (tickText_class w)"
  define w2 where "w2 = snd (tickImage_class w1)"
  define w3 where "w3 = (if configured (textChange w2) then w2\<lparr>trace := trace w2 @ [ReadText]\<rparr> else w2)"
  from assms have t: "fst (tickText_class w) = None"
    by (cases "tickText_class w"; cases "fst (tickText_class w)") (simp_all add: tick_class_def)
  then have t1: "tickText_class w = (None, w1)"
    by (simp add: w1_def prod_eq_iff)
  with assms have i: "fst (tickImage_class w1) = None" and s: "snd (tick_class w) = w2"
    by (simp_all add: tick_class_def w2_def)
  note f1 = tickText_class_frame [of w, folded w1_def]
  note f2 = tickImage_class_frame [of w1, folded w2_def]
  have a: "tickText_class w2 = (None, w3)"
    unfolding w3_def
    by (rule tickText_class_settled [OF t]) (simp_all add: f1 f2, simp add: w1_def)
  have b: "tickImage_class w3 =
      (None, if configured (imageChange w3) then w3\<lparr>trace := trace w3 @ [ReadImage]\<rparr> else w3)"
    by (rule tickImage_class_settled [OF i]) (simp_all add: w3_def f2, simp_all add: w2_def)
  have "tick_class w2 =
      (None, if configured (imageChange w3) then w3\<lparr>trace := trace w3 @ [ReadImage]\<rparr> else w3)"
    by (simp add: tick_class_def a b)
  then show ?thesis
    by (simp add: s) (simp add: w3_def f1 f2)
qed

text \<open>
  C3 as stated: after two consecutive calls of \<^verbatim>\<open>start()\<close> exactly one timer is
  active, so that no callback fires twice per interval. On an observer constructed
  without callbacks (so without a timer) two calls of \<^verbatim>\<open>start()\<close> leave two timers.
  On an observer constructed with a text callback, the constructor's call of
  \<^verbatim>\<open>start()\<close> and one more leave the timers 0 and 1; when the callback throws, the
  two timers deliver one change from \<^verbatim>\<open>"A"\<close> to \<^verbatim>\<open>"B"\<close> twice.
\<close>

theorem start_twice_two_timers:
  "length (intervals (start (start (constructor
       \<lparr>opt_duration = Some 100, opt_textChange = None, opt_imageChange = None\<rparr>
       (boot ''A'' emptyImage))))) = 2 \<and>
   intervals (start (constructor
       \<lparr>opt_duration = Some 100, opt_textChange = Some throwing, opt_imageChange = None\<rparr>
       (boot ''A'' emptyImage))) = [(0, Some 100), (1, Some 100)] \<and>
   trace (run_class (constructor
       \<lparr>opt_duration = Some 100, opt_textChange = Some throwing, opt_imageChange = None\<rparr>
       (boot ''A'' emptyImage)) [CStart, CWriteText ''B'', CFire 0, CFire 1])
     = [ReadText, ReadText, ReadText, TextChange ''B'' (Some ''A''),
        ReadText, TextChange ''B'' (Some ''A'')]"
  by (simp add: run_class_def boot_def host_defs class_defs Let_def throwing_def
      isDiffText_class_def js_and_def strict_neq_def)

text \<open>
  C3, amended. Every call of \<^verbatim>\<open>start()\<close> schedules exactly one new timer, with the
  observer's duration, keeps every timer that was scheduled before, and stores the new
  handle: one call raises the number of active timers by one (to exactly one when none
  was active), two consecutive calls raise it by two. The callbacks still do not fire
  twice for one change as long as they return: after a tick that ended normally, a
  further tick on the unchanged clipboard, such as the tick of a second timer in the
  same interval, ends normally as well, only reads the configured channels and calls
  no callback.
\<close>

theorem start_adds_one_timer:
  "intervals (start w) = intervals w @ [(nextHandle w, duration w)] \<and>
   timer (start w) = Some (nextHandle w) \<and>
   length (intervals (start w)) = Suc (length (intervals w)) \<and>
   length (intervals (start (start w))) = Suc (Suc (length (intervals w))) \<and>
   (fst (tick_class w) = None \<longrightarrow>
      tick_class (snd (tick_class w)) =
        (None, (snd (tick_class w))\<lparr>trace := trace (snd (tick_class w))
            @ (if configured (textChange w) then [ReadText] else [])
            @ (if configured (imageChange w) then [ReadImage] else [])\<rparr>))"
  using tick_class_settled [of w]
  by (simp add: start_intervals start_timer)

theorem start_adds_one_timer_witness:
  "intervals (start (constructor
       \<lparr>opt_duration = Some 100, opt_textChange = Some returning, opt_imageChange = None\<rparr>
       (boot ''A'' emptyImage))) = [(0, Some 100), (1, Some 100)] \<and>
   trace (run_class (constructor
       \<lparr>opt_duration = Some 100, opt_textChange = Some returning, opt_imageChange = None\<rparr>
       (boot ''A'' emptyImage)) [CStart, CWriteText ''B'', CFire 0, CFire 1])
     = [ReadText, ReadText, ReadText, TextChange ''B'' (Some ''A''), ReadText]"
proof -
  define w where "w = run_class (constructor
       \<lparr>opt_duration = Some 100, opt_textChange = Some returning, opt_imageChange = None\<rparr>
       (boot ''A'' emptyImage)) [CStart, CWriteText ''B'']"
  have w: "textChange w = Some returning" "imageChange w = None"
    "intervals w = [(0, Some 100), (1, Some 100)]"
    by (simp_all add: w_def run_class_def boot_def host_defs class_defs Let_def)
  have t: "tick_class w =
      (None, w\<lparr>trace := [ReadText, ReadText, ReadText, TextChange ''B'' (Some ''A'')],
               beforeText := Some ''B''\<rparr>)"
    by (simp add: w_def run_class_def boot_def host_defs class_defs Let_def returning_def
        isDiffText_class_def js_and_def strict_neq_def)
  then have n: "fst (tick_class w) = None"
    and i: "intervals (snd (tick_class w)) = [(0, Some 100), (1, Some 100)]"
    and r: "trace (snd (tick_class w)) = [ReadText, ReadText, ReadText, TextChange ''B'' (Some ''A'')]"
    by (simp_all add: w)
  from start_adds_one_timer [of w] n
  have "tick_class (snd (tick_class w)) =
        (None, (snd (tick_class w))\<lparr>trace := trace (snd (tick_class w))
            @ (if configured (textChange w) then [ReadText] else [])
            @ (if configured (imageChange w) then [ReadImage] else [])\<rparr>)"
    by blast
  then have "trace (snd (tick_class (snd (tick_class w)))) =
      [ReadText, ReadText, ReadText, TextChange ''B'' (Some ''A''), ReadText]"
    by (simp add: r w)
  then have "trace (run_class w [CFire 0, CFire 1]) =
      [ReadText, ReadText, ReadText, TextChange ''B'' (Some ''A''), ReadText]"
    by (simp add: run_class_def w(3) i)
  moreover have "intervals (start (constructor
       \<lparr>opt_duration = Some 100, opt_textChange = Some returning, opt_imageChange = None\<rparr>
       (boot ''A'' emptyImage))) = [(0, Some 100), (1, Some 100)]"
    by (simp add: boot_def host_defs class_defs Let_def)
  ultimately show ?thesis
    by (simp add: w_def run_class_def)
qed

end
